theory Spec2Isabelle
  imports
    Main
    "HOL-Library.Word"
    "HOL-Library.Multiset"
    "HOL-Library.List_Lexorder"
    "HOL-Library.Product_Lexorder"
begin

section \<open>A webhook receiver: signature check, validation, idempotent insert, queries\<close>

text \<open>
  The development follows \<^verbatim>\<open>app/main.py\<close> and \<^verbatim>\<open>app/storage.py\<close>.
  What the handlers call but the repository does not contain is treated as follows.
  \<^item> HMAC-SHA256 and the JSON decoding done by \<^verbatim>\<open>parse_raw\<close> are parameters of the
    model (fields of \<open>environment\<close>); the validators that run on the decoded fields are
    modelled from the source.
  \<^item> Python's \<^verbatim>\<open>str\<close> methods, \<^verbatim>\<open>hmac.compare_digest\<close> and the SQL statements are
    modelled by their documented behaviour: \<^verbatim>\<open>str.isdigit\<close> accepts every Unicode digit,
    \<^verbatim>\<open>compare_digest\<close> raises \<^verbatim>\<open>TypeError\<close> on a non-ASCII \<^verbatim>\<open>str\<close>, \<^verbatim>\<open>LIKE\<close> has
    the wildcards \<^verbatim>\<open>%\<close> and \<^verbatim>\<open>_\<close> and ignores the case of ASCII letters, and rows that
    are equal under every \<^verbatim>\<open>ORDER BY\<close> term come in an order SQL leaves open.
  \<^item> Binding a Python integer to an SQL parameter raises \<^verbatim>\<open>OverflowError\<close> when it
    does not fit the engine's signed 64-bit \<^verbatim>\<open>INTEGER\<close>; \<^verbatim>\<open>LIKE\<close> reads pattern
    and text up to their first NUL character.
  \<^item> Outside the model: the decoders of the framework yield Unicode text the engine can
    store (no lone surrogate), a \<^verbatim>\<open>LIKE\<close> pattern is within the engine's length
    limit, and the database file can be opened and written.
\<close>

subsection \<open>Strings and bytes\<close>

text \<open>
  A Python \<^verbatim>\<open>str\<close> is a sequence of Unicode code points, so \<^verbatim>\<open>len\<close> counts code points;
  \<^verbatim>\<open>bytes\<close> are 8-bit characters. With the lexicographic order on lists, \<open>\<le>\<close> on
  \<open>pystr\<close> is the order of SQLite's \<^verbatim>\<open>BINARY\<close> collation on the UTF-8 encoded text.
\<close>

type_synonym pystr = "nat list"

type_synonym bytes = "char list"

definition ustr :: "string \<Rightarrow> pystr" where
  "ustr s = map of_char s"

definition is_ascii :: "pystr \<Rightarrow> bool" where
  "is_ascii s = list_all (\<lambda>c. c < 128) s"

definition startswith :: "pystr \<Rightarrow> pystr \<Rightarrow> bool" where
  "startswith v p = (take (length p) v = p)"

definition endswith :: "pystr \<Rightarrow> pystr \<Rightarrow> bool" where
  "endswith v p = (length p \<le> length v \<and> drop (length v - length p) v = p)"

text \<open>
  \<^verbatim>\<open>str.isdigit\<close>: true when the string is non-empty and every character has the
  Unicode property \<^verbatim>\<open>Numeric_Type=Digit\<close> or \<^verbatim>\<open>Numeric_Type=Decimal\<close>. The table
  lists those code points as inclusive ranges (Unicode 14.0, the database of CPython 3.11);
  the first range is \<^verbatim>\<open>0\<close> to \<^verbatim>\<open>9\<close>.
\<close>

definition isdigit_ranges :: "(nat \<times> nat) list" where
  "isdigit_ranges = [
    (48, 57), (178, 179), (185, 185), (1632, 1641), (1776, 1785), (1984, 1993),
    (2406, 2415), (2534, 2543), (2662, 2671), (2790, 2799), (2918, 2927), (3046, 3055),
    (3174, 3183), (3302, 3311), (3430, 3439), (3558, 3567), (3664, 3673), (3792, 3801),
    (3872, 3881), (4160, 4169), (4240, 4249), (4969, 4977), (6112, 6121), (6160, 6169),
    (6470, 6479), (6608, 6618), (6784, 6793), (6800, 6809), (6992, 7001), (7088, 7097),
    (7232, 7241), (7248, 7257), (8304, 8304), (8308, 8313), (8320, 8329), (9312, 9320),
    (9332, 9340), (9352, 9360), (9450, 9450), (9461, 9469), (9471, 9471), (10102, 10110),
    (10112, 10120), (10122, 10130), (42528, 42537), (43216, 43225), (43264, 43273),
    (43472, 43481), (43504, 43513), (43600, 43609), (44016, 44025), (65296, 65305),
    (66720, 66729), (68160, 68163), (68912, 68921), (69216, 69224), (69714, 69722),
    (69734, 69743), (69872, 69881), (69942, 69951), (70096, 70105), (70384, 70393),
    (70736, 70745), (70864, 70873), (71248, 71257), (71360, 71369), (71472, 71481),
    (71904, 71913), (72016, 72025), (72784, 72793), (73040, 73049), (73120, 73129),
    (92768, 92777), (92864, 92873), (93008, 93017), (120782, 120831), (123200, 123209),
    (123632, 123641), (125264, 125273), (127232, 127242), (130032, 130041)]"

definition isdigit_char :: "nat \<Rightarrow> bool" where
  "isdigit_char c = list_ex (\<lambda>(lo, hi). lo \<le> c \<and> c \<le> hi) isdigit_ranges"

definition isdigit :: "pystr \<Rightarrow> bool" where
  "isdigit s = (s \<noteq> [] \<and> list_all isdigit_char s)"

text \<open>The strings of the regular expression \<^verbatim>\<open>^\+[0-9]+$\<close>: a plus sign, then one or
  more of the ASCII digits.\<close>

definition ascii_digit :: "nat \<Rightarrow> bool" where
  "ascii_digit c = (48 \<le> c \<and> c \<le> 57)"

definition plus_digits :: "pystr \<Rightarrow> bool" where
  "plus_digits v = (case v of [] \<Rightarrow> False | c # ds \<Rightarrow> c = 43 \<and> ds \<noteq> [] \<and> list_all ascii_digit ds)"

subsection \<open>The message model and its validators\<close>

text \<open>
  \<open>message\<close> is the dictionary with the keys \<^verbatim>\<open>message_id\<close>, \<^verbatim>\<open>from\<close>, \<^verbatim>\<open>to\<close>,
  \<^verbatim>\<open>ts\<close> and \<^verbatim>\<open>text\<close>: the fields of \<^verbatim>\<open>WebhookMessage\<close>, what
  \<^verbatim>\<open>payload.dict(by_alias=True)\<close> hands to the storage layer, and one entry of the
  \<^verbatim>\<open>data\<close> list of \<^verbatim>\<open>GET /messages\<close>.
\<close>

record message =
  m_message_id :: pystr
  m_from :: pystr
  m_to :: pystr
  m_ts :: pystr
  m_text :: "pystr option"

text \<open>A validator returns its value or raises \<^verbatim>\<open>ValueError\<close> with a message.\<close>

definition id_not_empty :: "pystr \<Rightarrow> string + pystr" where
  "id_not_empty v = (if v = [] then Inl ''message_id must be non-empty'' else Inr v)"

definition validate_e164 :: "pystr \<Rightarrow> string + pystr" where
  "validate_e164 v =
     (if \<not> startswith v (ustr ''+'') \<or> \<not> isdigit (drop 1 v)
      then Inl ''must be E.164-like (+digits)'' else Inr v)"

definition validate_ts :: "pystr \<Rightarrow> string + pystr" where
  "validate_ts v = (if \<not> endswith v (ustr ''Z'') then Inl ''ts must end with Z'' else Inr v)"

definition validate_text :: "pystr option \<Rightarrow> string + pystr option" where
  "validate_text v =
     (case v of
        None \<Rightarrow> Inr v
      | Some s \<Rightarrow> if length s > 4096 then Inl ''text too long'' else Inr v)"

text \<open>
  \<^verbatim>\<open>WebhookMessage.parse_raw\<close>: the body is decoded (\<open>json_object\<close>, \<open>None\<close> when it
  is not a JSON object with the four required string fields), then every field's
  validator runs and the failures are collected, in the order of the fields.
\<close>

datatype validation_error = JSONError | FieldErrors "(string \<times> string) list"

definition field_errors :: "string \<Rightarrow> string + 'a \<Rightarrow> (string \<times> string) list" where
  "field_errors loc r = (case r of Inl msg \<Rightarrow> [(loc, msg)] | Inr _ \<Rightarrow> [])"

definition parse_raw :: "(bytes \<Rightarrow> message option) \<Rightarrow> bytes \<Rightarrow> validation_error + message" where
  "parse_raw json_object body =
     (case json_object body of
        None \<Rightarrow> Inl JSONError
      | Some m \<Rightarrow>
          (let errs =
                 field_errors ''message_id'' (id_not_empty (m_message_id m)) @
                 field_errors ''from'' (validate_e164 (m_from m)) @
                 field_errors ''to'' (validate_e164 (m_to m)) @
                 field_errors ''ts'' (validate_ts (m_ts m)) @
                 field_errors ''text'' (validate_text (m_text m))
           in if errs = [] then Inr m else Inl (FieldErrors errs)))"

subsection \<open>The store\<close>

text \<open>
  The table \<^verbatim>\<open>messages\<close>, as the list of its rows in the order of insertion; the
  column \<^verbatim>\<open>text\<close> is the field \<open>msg_text\<close>. \<^verbatim>\<open>message_id\<close> is the primary key:
  an \<^verbatim>\<open>INSERT\<close> of a key that is present raises \<^verbatim>\<open>IntegrityError\<close>, which
  \<^verbatim>\<open>insert_message\<close> turns into \<^verbatim>\<open>False\<close>. \<open>now\<close> is the reading of
  \<^verbatim>\<open>datetime.utcnow().isoformat()\<close> at the call.
\<close>

record row =
  message_id :: pystr
  from_msisdn :: pystr
  to_msisdn :: pystr
  ts :: pystr
  msg_text :: "pystr option"
  created_at :: pystr

type_synonym store = "row list"

definition init_db :: store where
  "init_db = []"

definition insert_message :: "pystr \<Rightarrow> store \<Rightarrow> message \<Rightarrow> store \<times> bool" where
  "insert_message now db m =
     (if m_message_id m \<in> set (map message_id db) then (db, False)
      else (db @ [\<lparr>message_id = m_message_id m, from_msisdn = m_from m, to_msisdn = m_to m,
                    ts = m_ts m, msg_text = m_text m, created_at = now @ ustr ''Z''\<rparr>], True))"

subsection \<open>POST /webhook\<close>

text \<open>
  \<^verbatim>\<open>hexdigest\<close> writes the 256-bit digest as 64 lower-case hexadecimal digits.
\<close>

definition hexchar :: "nat \<Rightarrow> nat" where
  "hexchar d = (if d < 10 then 48 + d else 87 + d)"

fun hex_of :: "nat \<Rightarrow> nat \<Rightarrow> pystr" where
  "hex_of 0 v = []"
| "hex_of (Suc n) v = hex_of n (v div 16) @ [hexchar (v mod 16)]"

definition hexdigest :: "256 word \<Rightarrow> pystr" where
  "hexdigest w = hex_of 64 (unat w)"

datatype py_exception = TypeError | OverflowError

text \<open>
  \<^verbatim>\<open>hmac.compare_digest\<close> on two \<^verbatim>\<open>str\<close> arguments: both must be ASCII, otherwise
  it raises \<^verbatim>\<open>TypeError\<close>.
\<close>

definition compare_digest :: "pystr \<Rightarrow> pystr \<Rightarrow> py_exception + bool" where
  "compare_digest a b = (if is_ascii a \<and> is_ascii b then Inr (a = b) else Inl TypeError)"

record environment =
  WEBHOOK_SECRET :: bytes
  hmac_sha256 :: "bytes \<Rightarrow> bytes \<Rightarrow> 256 word"
  json_object :: "bytes \<Rightarrow> message option"

record request =
  raw_body :: bytes
  x_signature :: "pystr option"

datatype result = created | duplicate

datatype detail = Detail string | StrOf validation_error

text \<open>
  A response is the 200 body with its \<^verbatim>\<open>result\<close>, an \<^verbatim>\<open>HTTPException\<close> with its
  status and detail, or an exception no handler catches (the framework answers 500).
\<close>

datatype response = Ok200 result | HTTPException nat detail | Unhandled py_exception

definition computed_signature :: "environment \<Rightarrow> bytes \<Rightarrow> pystr" where
  "computed_signature env body = hexdigest (hmac_sha256 env (WEBHOOK_SECRET env) body)"

definition webhook :: "environment \<Rightarrow> pystr \<Rightarrow> store \<Rightarrow> request \<Rightarrow> store \<times> response" where
  "webhook env now db req =
     (case x_signature req of
        None \<Rightarrow> (db, HTTPException 401 (Detail ''invalid signature''))
      | Some signature \<Rightarrow>
          if signature = [] then (db, HTTPException 401 (Detail ''invalid signature''))
          else
            (case compare_digest signature (computed_signature env (raw_body req)) of
               Inl e \<Rightarrow> (db, Unhandled e)
             | Inr equal \<Rightarrow>
                 if \<not> equal then (db, HTTPException 401 (Detail ''invalid signature''))
                 else
                   (case parse_raw (json_object env) (raw_body req) of
                      Inl e \<Rightarrow> (db, HTTPException 422 (StrOf e))
                    | Inr payload \<Rightarrow>
                        (case insert_message now db payload of
                           (db', inserted) \<Rightarrow>
                             (db', Ok200 (if inserted then created else duplicate))))))"

subsection \<open>GET /messages\<close>

text \<open>
  The truth value Python gives an optional string parameter: \<^verbatim>\<open>None\<close> and the
  empty string are false.
\<close>

definition truthy :: "pystr option \<Rightarrow> bool" where
  "truthy v = (case v of None \<Rightarrow> False | Some s \<Rightarrow> s \<noteq> [])"

text \<open>
  SQL \<^verbatim>\<open>LIKE\<close> without an escape character, pattern first: \<^verbatim>\<open>%\<close> (37) matches any
  sequence of characters, \<^verbatim>\<open>_\<close> (95) matches any one character, and any other
  character matches itself, an ASCII letter in either case. The engine reads both
  operands as C strings, up to their first NUL character (\<open>cstr\<close>). \<^verbatim>\<open>LIKE\<close> on
  a \<^verbatim>\<open>NULL\<close> text is not true.
\<close>

definition tolower :: "nat \<Rightarrow> nat" where
  "tolower c = (if 65 \<le> c \<and> c \<le> 90 then c + 32 else c)"

fun like :: "pystr \<Rightarrow> pystr \<Rightarrow> bool" where
  "like [] s = (s = [])"
| "like (p # ps) [] = (p = 37 \<and> like ps [])"
| "like (p # ps) (c # cs) =
     (if p = 37 then like ps (c # cs) \<or> like (p # ps) cs
      else (p = 95 \<or> tolower p = tolower c) \<and> like ps cs)"

definition cstr :: "pystr \<Rightarrow> pystr" where
  "cstr s = takeWhile (\<lambda>c. c \<noteq> 0) s"

definition text_like :: "pystr option \<Rightarrow> pystr \<Rightarrow> bool" where
  "text_like t pattern = (case t of None \<Rightarrow> False | Some s \<Rightarrow> like (cstr pattern) (cstr s))"

text \<open>
  The list \<^verbatim>\<open>conditions\<close> with its \<^verbatim>\<open>params\<close>: one condition for every filter that
  is truthy, in the order \<^verbatim>\<open>from\<close>, \<^verbatim>\<open>since\<close>, \<^verbatim>\<open>q\<close>. The \<^verbatim>\<open>WHERE\<close> clause
  joins them with \<^verbatim>\<open>AND\<close>; with no condition there is no clause.
\<close>

definition condition :: "pystr option \<Rightarrow> (pystr \<Rightarrow> row \<Rightarrow> bool) \<Rightarrow> (row \<Rightarrow> bool) list" where
  "condition arg c = (if truthy arg then [c (the arg)] else [])"

definition conditions :: "pystr option \<Rightarrow> pystr option \<Rightarrow> pystr option \<Rightarrow> (row \<Rightarrow> bool) list" where
  "conditions from_arg since q =
     condition from_arg (\<lambda>v r. from_msisdn r = v) @
     condition since (\<lambda>v r. v \<le> ts r) @
     condition q (\<lambda>v r. text_like (msg_text r) ([37] @ v @ [37]))"

definition where_clause :: "(row \<Rightarrow> bool) list \<Rightarrow> row \<Rightarrow> bool" where
  "where_clause conds r = list_all (\<lambda>c. c r) conds"

definition select_columns :: "row \<Rightarrow> message" where
  "select_columns r =
     \<lparr>m_message_id = message_id r, m_from = from_msisdn r, m_to = to_msisdn r,
      m_ts = ts r, m_text = msg_text r\<rparr>"

definition order_by_ts_message_id :: "row list \<Rightarrow> row list" where
  "order_by_ts_message_id rows = sort_key (\<lambda>r. (ts r, message_id r)) rows"

record messages_response =
  resp_data :: "message list"
  resp_total :: nat
  resp_limit :: int
  resp_offset :: int

text \<open>
  \<^verbatim>\<open>Query(50, ge=1, le=100)\<close> and \<^verbatim>\<open>Query(0, ge=0)\<close>: an absent parameter takes the
  default, a value outside the bounds makes the framework answer 422 with the names of
  the offending parameters, and the handler does not run. \<^verbatim>\<open>offset\<close> has no upper
  bound: the count query runs, and binding \<^verbatim>\<open>[limit, offset]\<close> to the second query
  raises \<^verbatim>\<open>OverflowError\<close> when \<^verbatim>\<open>offset\<close> is above \<^verbatim>\<open>2**63 - 1\<close>; nothing
  catches it.
\<close>

datatype request_error = RequestValidationError "string list" | Uncaught py_exception

definition get_messages ::
  "store \<Rightarrow> int option \<Rightarrow> int option \<Rightarrow> pystr option \<Rightarrow> pystr option \<Rightarrow> pystr option
     \<Rightarrow> request_error + messages_response" where
  "get_messages db limit_arg offset_arg from_arg since q =
     (let lim = (case limit_arg of None \<Rightarrow> 50 | Some n \<Rightarrow> n);
          off = (case offset_arg of None \<Rightarrow> 0 | Some n \<Rightarrow> n);
          errs = (if lim < 1 \<or> 100 < lim then [''limit''] else []) @
                 (if off < 0 then [''offset''] else [])
      in if errs \<noteq> [] then Inl (RequestValidationError errs)
         else if 9223372036854775807 < off then Inl (Uncaught OverflowError)
         else
           (let matching = filter (where_clause (conditions from_arg since q)) db;
                rows = take (nat lim) (drop (nat off) (order_by_ts_message_id matching))
            in Inr \<lparr>resp_data = map select_columns rows, resp_total = length matching,
                    resp_limit = lim, resp_offset = off\<rparr>))"

subsection \<open>GET /stats\<close>

text \<open>
  \<^verbatim>\<open>GROUP BY from_msisdn\<close> with \<^verbatim>\<open>COUNT(*)\<close> gives one pair for every sender.
  \<^verbatim>\<open>ORDER BY count DESC\<close> names no second key, so SQL admits every arrangement of the
  groups in which the counts do not increase; \<^verbatim>\<open>LIMIT 10\<close> keeps its first ten.
  \<open>stats db resp\<close> holds when \<open>resp\<close> is a response the five queries can produce
  on \<open>db\<close>.
\<close>

definition group_by_sender :: "store \<Rightarrow> (pystr \<times> nat) list" where
  "group_by_sender db =
     map (\<lambda>s. (s, length (filter (\<lambda>r. from_msisdn r = s) db))) (remdups (map from_msisdn db))"

definition order_by_count_desc :: "(pystr \<times> nat) list \<Rightarrow> (pystr \<times> nat) list \<Rightarrow> bool" where
  "order_by_count_desc groups xs =
     (mset xs = mset groups \<and> sorted_wrt (\<lambda>a b. snd b \<le> snd a) xs)"

definition fetchone :: "'a list \<Rightarrow> 'a option" where
  "fetchone rows = (case rows of [] \<Rightarrow> None | r # _ \<Rightarrow> Some r)"

record stats_response =
  total_messages :: nat
  senders_count :: nat
  messages_per_sender :: "(pystr \<times> nat) list"
  first_message_ts :: "pystr option"
  last_message_ts :: "pystr option"

definition stats :: "store \<Rightarrow> stats_response \<Rightarrow> bool" where
  "stats db resp =
     (total_messages resp = length db \<and>
      senders_count resp = length (remdups (map from_msisdn db)) \<and>
      (\<exists>xs. order_by_count_desc (group_by_sender db) xs \<and> messages_per_sender resp = take 10 xs) \<and>
      first_message_ts resp = fetchone (take 1 (sort (map ts db))) \<and>
      last_message_ts resp = fetchone (take 1 (rev (sort (map ts db)))))"

subsection \<open>Notions the properties are stated with\<close>

text \<open>The request of a client that knows the secret: the body with its signature.\<close>

definition signed :: "environment \<Rightarrow> bytes \<Rightarrow> request" where
  "signed env body = \<lparr>raw_body = body, x_signature = Some (computed_signature env body)\<rparr>"


definition istartswith :: "pystr \<Rightarrow> pystr \<Rightarrow> bool" where
  "istartswith v p = (length p \<le> length v \<and> map tolower (take (length p) v) = map tolower p)"

fun icontains :: "pystr \<Rightarrow> pystr \<Rightarrow> bool" where
  "icontains q [] = (q = [])"
| "icontains q (c # cs) = (istartswith (c # cs) q \<or> icontains q cs)"



text \<open>
  The scenario of the specification: the secret \<^verbatim>\<open>s3cr3t\<close> and the message
  \<^verbatim>\<open>m1\<close>. \<open>demo_env m\<close> stands in for the two library functions: a digest that
  depends on key and body, and a decoder that reads the message \<open>m\<close> from a body.
\<close>

definition demo_message :: message where
  "demo_message =
     \<lparr>m_message_id = ustr ''m1'', m_from = ustr ''+15551230000'', m_to = ustr ''+15557654321'',
      m_ts = ustr ''2024-01-01T00:00:00Z'', m_text = Some (ustr ''hi'')\<rparr>"

definition demo_env :: "message \<Rightarrow> environment" where
  "demo_env m =
     \<lparr>WEBHOOK_SECRET = ''s3cr3t'',
      hmac_sha256 = (\<lambda>key msg. of_nat (length key + length msg)),
      json_object = (\<lambda>body. Some m)\<rparr>"

definition demo_row :: "pystr \<Rightarrow> pystr \<Rightarrow> pystr \<Rightarrow> pystr option \<Rightarrow> row" where
  "demo_row i sender t body =
     \<lparr>message_id = i, from_msisdn = sender, to_msisdn = ustr ''+15557654321'', ts = t,
      msg_text = body, created_at = ustr ''2024-01-02T00:00:00Z''\<rparr>"

text \<open>A store of two messages of two senders; the later message was inserted first.\<close>

definition demo_store :: store where
  "demo_store =
     [demo_row (ustr ''m2'') (ustr ''+15550000000'') (ustr ''2024-01-02T00:00:00Z'') None,
      demo_row (ustr ''m1'') (ustr ''+15551230000'') (ustr ''2024-01-01T00:00:00Z'') (Some (ustr ''hi''))]"

section \<open>Properties\<close>

subsection \<open>Evaluating literals and the scenario\<close>

lemma ustr_simps [simp]: "ustr [] = []" "ustr (c # cs) = of_char c # ustr cs"
  by (simp_all add: ustr_def)


subsection \<open>The signature a client computes\<close>

lemma length_hex_of: "length (hex_of n v) = n"
  by (induction n arbitrary: v) simp_all

lemma hexchar_ascii: "d < 16 \<Longrightarrow> hexchar d < 128"
  by (simp add: hexchar_def)

lemma is_ascii_hex_of: "is_ascii (hex_of n v)"
  by (induction n arbitrary: v) (simp_all add: is_ascii_def hexchar_ascii)

lemma computed_signature_ascii: "is_ascii (computed_signature env body)"
  by (simp add: computed_signature_def hexdigest_def is_ascii_hex_of)

lemma computed_signature_length: "length (computed_signature env body) = 64"
  by (simp add: computed_signature_def hexdigest_def length_hex_of)

lemma computed_signature_not_empty: "computed_signature env body \<noteq> []"
  using computed_signature_length [of env body] by auto

lemma compare_digest_computed:
  "compare_digest (computed_signature env body) (computed_signature env body) = Inr True"
  by (simp add: compare_digest_def computed_signature_ascii)

text \<open>With the right signature the handler reaches parsing and the insert.\<close>

lemma webhook_signed:
  assumes "x_signature req = Some (computed_signature env (raw_body req))"
  shows "webhook env now db req =
     (case parse_raw (json_object env) (raw_body req) of
        Inl e \<Rightarrow> (db, HTTPException 422 (StrOf e))
      | Inr payload \<Rightarrow>
          (case insert_message now db payload of
             (db', inserted) \<Rightarrow> (db', Ok200 (if inserted then created else duplicate))))"
  using assms
  by (simp add: webhook_def computed_signature_not_empty compare_digest_computed)

lemma signed_request [simp]:
  "x_signature (signed env body) = Some (computed_signature env (raw_body (signed env body)))"
  "raw_body (signed env body) = body"
  by (simp_all add: signed_def)

subsection \<open>The idempotent insert\<close>






text \<open>
  The invariant of the data model: \<^verbatim>\<open>message_id\<close> is unique in the store. It holds
  of the empty table and every request keeps it.
\<close>

lemma insert_message_keeps_unique:
  "distinct (map message_id db) \<Longrightarrow> distinct (map message_id (fst (insert_message now db m)))"
  by (simp add: insert_message_def)

theorem webhook_keeps_message_id_unique:
  assumes "distinct (map message_id db)"
  shows "distinct (map message_id (fst (webhook env now db req)))"
proof -
  have "fst (webhook env now db req) = db \<or>
      (\<exists>m. fst (webhook env now db req) = fst (insert_message now db m))"
    by (auto simp: webhook_def split: option.splits sum.splits prod.splits if_splits)
      (metis fst_conv)
  then show ?thesis
    using assms insert_message_keeps_unique [OF assms] by auto
qed

theorem webhook_keeps_message_id_unique_witness:
  "distinct (map message_id init_db) \<and>
   distinct (map message_id (fst (webhook (demo_env demo_message) (ustr ''2024-01-02T00:00:00'')
      init_db (signed (demo_env demo_message) ''body''))))"
proof -
  have "distinct (map message_id init_db)"
    by (simp add: init_db_def)
  then show ?thesis
    using webhook_keeps_message_id_unique [of init_db] by blast
qed

subsection \<open>Requests without a good signature\<close>

text \<open>
  Claim C2. A missing or wrong signature is to give 401 with the detail
  \<^verbatim>\<open>invalid signature\<close>. The header value reaches the handler as a string of Latin-1
  characters, and one that holds a character above 127 is not refused with 401:
  \<^verbatim>\<open>compare_digest\<close> raises \<^verbatim>\<open>TypeError\<close>, which the handler does not catch. Here
  the signature is the one character U+00E9; the store is left as it was.
\<close>

theorem webhook_non_ascii_signature_unhandled:
  "webhook env now db \<lparr>raw_body = body, x_signature = Some [233]\<rparr> = (db, Unhandled TypeError)"
  by (simp add: webhook_def compare_digest_def is_ascii_def)

text \<open>
  What holds of every request without the good signature: no row is inserted, whatever
  the payload.
\<close>

lemma webhook_store_cases:
  "fst (webhook env now db req) = db \<or>
   x_signature req = Some (computed_signature env (raw_body req))"
  by (auto simp: webhook_def compare_digest_def split: option.splits sum.splits if_splits)

theorem webhook_bad_signature_no_insert:
  assumes "x_signature req \<noteq> Some (computed_signature env (raw_body req))"
  shows "fst (webhook env now db req) = db"
  using assms webhook_store_cases [of env now db req] by simp

lemma deadbeef_not_computed: "Some (ustr ''deadbeef'') \<noteq> Some (computed_signature env body)"
proof
  assume "Some (ustr ''deadbeef'') = Some (computed_signature env body)"
  then have "length (computed_signature env body) = length (ustr ''deadbeef'')"
    by simp
  then show False
    by (simp add: computed_signature_length)
qed

theorem webhook_bad_signature_no_insert_witness:
  "fst (webhook (demo_env demo_message) (ustr ''2024-01-02T00:00:00'') init_db
      \<lparr>raw_body = ''body'', x_signature = Some (ustr ''deadbeef'')\<rparr>) = init_db"
  using webhook_bad_signature_no_insert [of "\<lparr>raw_body = ''body'', x_signature = Some (ustr ''deadbeef'')\<rparr>"
      "demo_env demo_message" "ustr ''2024-01-02T00:00:00''" init_db]
    deadbeef_not_computed [of "demo_env demo_message" "''body''"]
  by simp

text \<open>
  A missing header, an empty one and a wrong ASCII signature all get the same answer.
\<close>

theorem webhook_bad_signature_401:
  assumes "x_signature req \<noteq> Some (computed_signature env (raw_body req))"
    and "case x_signature req of None \<Rightarrow> True | Some s \<Rightarrow> is_ascii s"
  shows "webhook env now db req = (db, HTTPException 401 (Detail ''invalid signature''))"
  using assms
  by (auto simp: webhook_def compare_digest_def computed_signature_ascii split: option.splits)

theorem webhook_bad_signature_401_witness:
  "webhook (demo_env demo_message) (ustr ''2024-01-02T00:00:00'') init_db
      \<lparr>raw_body = ''body'', x_signature = None\<rparr> =
     (init_db, HTTPException 401 (Detail ''invalid signature'')) \<and>
   webhook (demo_env demo_message) (ustr ''2024-01-02T00:00:00'') init_db
      \<lparr>raw_body = ''body'', x_signature = Some (ustr ''deadbeef'')\<rparr> =
     (init_db, HTTPException 401 (Detail ''invalid signature''))"
  using webhook_bad_signature_401 [of "\<lparr>raw_body = ''body'', x_signature = None\<rparr>"
      "demo_env demo_message" "ustr ''2024-01-02T00:00:00''" init_db]
    webhook_bad_signature_401 [of "\<lparr>raw_body = ''body'', x_signature = Some (ustr ''deadbeef'')\<rparr>"
      "demo_env demo_message" "ustr ''2024-01-02T00:00:00''" init_db]
    deadbeef_not_computed [of "demo_env demo_message" "''body''"]
  by (simp add: is_ascii_def)

subsection \<open>Validation failures\<close>

lemma parse_raw_error_iff:
  "decode body = Some m \<Longrightarrow>
   (\<exists>e. parse_raw decode body = Inl e) \<longleftrightarrow>
     (m_message_id m = [] \<or> validate_e164 (m_from m) \<noteq> Inr (m_from m) \<or>
      validate_e164 (m_to m) \<noteq> Inr (m_to m) \<or> validate_ts (m_ts m) \<noteq> Inr (m_ts m) \<or>
      validate_text (m_text m) \<noteq> Inr (m_text m))"
  by (auto simp: parse_raw_def field_errors_def id_not_empty_def validate_e164_def validate_ts_def
      validate_text_def Let_def split: option.splits if_splits sum.splits)

lemma webhook_signed_invalid:
  assumes "parse_raw (json_object env) body = Inl e"
  shows "webhook env now db (signed env body) = (db, HTTPException 422 (StrOf e))"
  using assms by (simp add: webhook_signed [OF signed_request(1)])

lemma isdigit_char_ascii: "c < 128 \<Longrightarrow> isdigit_char c = ascii_digit c"
  by (auto simp: isdigit_char_def isdigit_ranges_def ascii_digit_def)

lemma ascii_digit_isdigit_char: "ascii_digit c \<Longrightarrow> isdigit_char c"
  by (simp add: isdigit_char_def isdigit_ranges_def ascii_digit_def)

lemma validate_e164_ascii:
  assumes "is_ascii v" "\<not> plus_digits v"
  shows "validate_e164 v = Inl ''must be E.164-like (+digits)''"
proof (cases v)
  case Nil
  then show ?thesis by (simp add: validate_e164_def startswith_def)
next
  case (Cons c ds)
  have "list_all isdigit_char ds = list_all ascii_digit ds"
    using assms(1) Cons by (auto simp: is_ascii_def list_all_iff isdigit_char_ascii)
  then show ?thesis
    using assms(2) Cons
    by (auto simp: plus_digits_def validate_e164_def startswith_def isdigit_def)
qed

text \<open>
  Claim C5. A \<^verbatim>\<open>from\<close> or \<^verbatim>\<open>to\<close> that is not a plus sign followed by ASCII digits
  is to be refused. \<^verbatim>\<open>str.isdigit\<close> also accepts the digits of other scripts: with
  \<^verbatim>\<open>from\<close> a plus sign and U+0661 (ARABIC-INDIC DIGIT ONE), the signed request is
  answered \<^verbatim>\<open>created\<close> and its row is stored.
\<close>

theorem webhook_accepts_unicode_digit:
  "\<not> plus_digits [43, 1633] \<and>
   webhook (demo_env (demo_message\<lparr>m_from := [43, 1633]\<rparr>)) (ustr ''2024-01-02T00:00:00'') init_db
       (signed (demo_env (demo_message\<lparr>m_from := [43, 1633]\<rparr>)) ''body'') =
     ([demo_row (ustr ''m1'') [43, 1633] (ustr ''2024-01-01T00:00:00Z'') (Some (ustr ''hi''))],
      Ok200 created)"
proof -
  have "parse_raw (json_object (demo_env (demo_message\<lparr>m_from := [43, 1633]\<rparr>))) ''body'' =
      Inr (demo_message\<lparr>m_from := [43, 1633]\<rparr>)"
    by (simp add: parse_raw_def demo_env_def demo_message_def field_errors_def id_not_empty_def
      validate_e164_def validate_ts_def validate_text_def startswith_def endswith_def
      isdigit_def isdigit_char_def isdigit_ranges_def)
  then show ?thesis
    by (simp add: webhook_signed [OF signed_request(1)] insert_message_def init_db_def
        demo_row_def demo_message_def plus_digits_def ascii_digit_def)
qed

text \<open>
  On ASCII strings the check is the regular expression: every string of the expression
  passes, and an ASCII \<^verbatim>\<open>from\<close> or \<^verbatim>\<open>to\<close> outside it gets 422 and no row.
\<close>

theorem validate_e164_plus_digits: "plus_digits v \<Longrightarrow> validate_e164 v = Inr v"
  by (cases v) (auto simp: plus_digits_def validate_e164_def startswith_def isdigit_def
      list_all_iff ascii_digit_isdigit_char)

theorem validate_e164_plus_digits_witness:
  "validate_e164 (ustr ''+15551230000'') = Inr (ustr ''+15551230000'')"
  using validate_e164_plus_digits [of "ustr ''+15551230000''"]
  by (simp add: plus_digits_def ascii_digit_def)

theorem webhook_rejects_ascii_non_e164:
  assumes "json_object env body = Some m"
    and "v = m_from m \<or> v = m_to m"
    and "is_ascii v" and "\<not> plus_digits v"
  shows "\<exists>e. webhook env now db (signed env body) = (db, HTTPException 422 (StrOf e))"
proof -
  have "validate_e164 v \<noteq> Inr v"
    using validate_e164_ascii [OF assms(3,4)] by simp
  then have "\<exists>e. parse_raw (json_object env) body = Inl e"
    using assms(1,2) by (auto simp: parse_raw_error_iff)
  then show ?thesis
    by (auto simp: webhook_signed_invalid)
qed

theorem webhook_rejects_ascii_non_e164_witness:
  "\<exists>e. webhook (demo_env (demo_message\<lparr>m_to := ustr ''+1555-765''\<rparr>)) (ustr ''2024-01-02T00:00:00'')
      init_db (signed (demo_env (demo_message\<lparr>m_to := ustr ''+1555-765''\<rparr>)) ''body'') =
     (init_db, HTTPException 422 (StrOf e))"
  using webhook_rejects_ascii_non_e164 [of "demo_env (demo_message\<lparr>m_to := ustr ''+1555-765''\<rparr>)"
      "''body''" "demo_message\<lparr>m_to := ustr ''+1555-765''\<rparr>" "ustr ''+1555-765''"
      "ustr ''2024-01-02T00:00:00''" init_db]
  by (simp add: demo_env_def is_ascii_def plus_digits_def ascii_digit_def)

text \<open>
  Claim C8. With the right signature, a payload whose \<^verbatim>\<open>text\<close> is longer than 4096
  characters gets 422 and no row is inserted; a \<^verbatim>\<open>text\<close> of at most 4096 characters
  and a null \<^verbatim>\<open>text\<close> pass the check.
\<close>

theorem text_length_check:
  "(json_object env body = Some m \<and> m_text m = Some s \<and> 4096 < length s \<longrightarrow>
      (\<exists>e. webhook env now db (signed env body) = (db, HTTPException 422 (StrOf e)))) \<and>
   (length s \<le> 4096 \<longrightarrow> validate_text (Some s) = Inr (Some s)) \<and>
   validate_text None = Inr None"
proof (intro conjI impI)
  assume a: "json_object env body = Some m \<and> m_text m = Some s \<and> 4096 < length s"
  then have "validate_text (m_text m) \<noteq> Inr (m_text m)"
    by (simp add: validate_text_def)
  then have "\<exists>e. parse_raw (json_object env) body = Inl e"
    using a by (auto simp: parse_raw_error_iff)
  then show "\<exists>e. webhook env now db (signed env body) = (db, HTTPException 422 (StrOf e))"
    by (auto simp: webhook_signed_invalid)
qed (simp_all add: validate_text_def)

theorem text_length_check_witness:
  "(\<exists>e. webhook (demo_env (demo_message\<lparr>m_text := Some (replicate 4097 97)\<rparr>))
          (ustr ''2024-01-02T00:00:00'') init_db
          (signed (demo_env (demo_message\<lparr>m_text := Some (replicate 4097 97)\<rparr>)) ''body'') =
        (init_db, HTTPException 422 (StrOf e))) \<and>
   validate_text (Some (replicate 4096 97)) = Inr (Some (replicate 4096 97))"
  using text_length_check [of "demo_env (demo_message\<lparr>m_text := Some (replicate 4097 97)\<rparr>)" "''body''"
      "demo_message\<lparr>m_text := Some (replicate 4097 97)\<rparr>" "replicate 4097 97"
      "ustr ''2024-01-02T00:00:00''" init_db]
    text_length_check [of _ _ _ "replicate 4096 97"]
  by (simp add: demo_env_def)

subsection \<open>The filters of GET /messages\<close>

lemma get_messages_Inr:
  assumes "get_messages db limit_arg offset_arg from_arg since q = Inr r"
  shows "r = \<lparr>resp_data = map select_columns
                 (take (nat (case limit_arg of None \<Rightarrow> 50 | Some n \<Rightarrow> n))
                   (drop (nat (case offset_arg of None \<Rightarrow> 0 | Some n \<Rightarrow> n))
                     (order_by_ts_message_id (filter (where_clause (conditions from_arg since q)) db)))),
              resp_total = length (filter (where_clause (conditions from_arg since q)) db),
              resp_limit = (case limit_arg of None \<Rightarrow> 50 | Some n \<Rightarrow> n),
              resp_offset = (case offset_arg of None \<Rightarrow> 0 | Some n \<Rightarrow> n)\<rparr>"
  using assms by (simp add: get_messages_def Let_def split: if_splits)





lemma istartswith_iff:
  "istartswith v p \<longleftrightarrow> (\<exists>mid suf. v = mid @ suf \<and> map tolower mid = map tolower p)"
proof
  assume "istartswith v p"
  then have "v = take (length p) v @ drop (length p) v \<and>
      map tolower (take (length p) v) = map tolower p"
    by (simp add: istartswith_def)
  then show "\<exists>mid suf. v = mid @ suf \<and> map tolower mid = map tolower p"
    by blast
next
  assume "\<exists>mid suf. v = mid @ suf \<and> map tolower mid = map tolower p"
  then obtain mid suf where v: "v = mid @ suf" and m: "map tolower mid = map tolower p"
    by blast
  from m have "length mid = length p"
    by (rule map_eq_imp_length_eq)
  with v m show "istartswith v p"
    by (simp add: istartswith_def)
qed

text \<open>\<open>icontains\<close> is the substring test up to the case of ASCII letters.\<close>

lemma icontains_iff:
  "icontains q t \<longleftrightarrow> (\<exists>pre mid suf. t = pre @ mid @ suf \<and> map tolower mid = map tolower q)"
proof (induction t)
  case Nil
  then show ?case by auto
next
  case (Cons c cs)
  have "(\<exists>pre mid suf. c # cs = pre @ mid @ suf \<and> map tolower mid = map tolower q) \<longleftrightarrow>
      (\<exists>mid suf. c # cs = mid @ suf \<and> map tolower mid = map tolower q) \<or>
      (\<exists>pre mid suf. cs = pre @ mid @ suf \<and> map tolower mid = map tolower q)"
    (is "?L \<longleftrightarrow> ?A \<or> ?B")
  proof
    assume ?L
    then obtain pre mid suf where e: "c # cs = pre @ mid @ suf"
      and m: "map tolower mid = map tolower q"
      by blast
    show "?A \<or> ?B"
    proof (cases pre)
      case Nil
      with e m show ?thesis by auto
    next
      case (Cons a pre')
      with e have "cs = pre' @ mid @ suf" by simp
      with m show ?thesis by blast
    qed
  next
    assume "?A \<or> ?B"
    then show ?L
    proof
      assume ?A
      then obtain mid suf where "c # cs = [] @ mid @ suf" "map tolower mid = map tolower q"
        by auto
      then show ?L by blast
    next
      assume ?B
      then obtain pre mid suf where "c # cs = (c # pre) @ mid @ suf" "map tolower mid = map tolower q"
        by auto
      then show ?L by blast
    qed
  qed
  with Cons show ?case
    by (simp add: istartswith_iff)
qed






text \<open>
  The wildcards of \<^verbatim>\<open>q\<close> are not escaped either: asked for an underscore, the handler
  matches every text that is not empty.
\<close>

lemma text_like_underscore: "text_like (Some (ustr ''hi'')) ([37] @ ustr ''_'' @ [37])"
  by (simp add: text_like_def cstr_def)

subsection \<open>Order, total and paging of GET /messages\<close>





text \<open>
  Claim C9. A \<^verbatim>\<open>limit\<close> outside 1 to 100 and a negative \<^verbatim>\<open>offset\<close> are refused,
  and a \<^verbatim>\<open>limit\<close> and an \<^verbatim>\<open>offset\<close> within the bounds are to come back in the
  response. \<^verbatim>\<open>offset\<close> is bounded from below only, and the least value that does not
  fit a signed 64-bit integer passes the validation and has no response: binding it
  raises \<^verbatim>\<open>OverflowError\<close>.
\<close>

theorem get_messages_offset_overflow:
  "get_messages db (Some 50) (Some 9223372036854775808) from_arg since q =
     Inl (Uncaught OverflowError)"
  by (simp add: get_messages_def)

text \<open>
  What holds of every request: values outside the bounds give the validation error, so
  no clamped value is put in their place, and a response repeats the \<^verbatim>\<open>limit\<close> and
  \<^verbatim>\<open>offset\<close> it was asked with.
\<close>

theorem get_messages_limit_offset:
  "(lim < 1 \<or> 100 < lim \<or> off < 0 \<longrightarrow>
      (\<exists>names. get_messages db (Some lim) (Some off) from_arg since q =
         Inl (RequestValidationError names))) \<and>
   (\<forall>r. get_messages db (Some lim) (Some off) from_arg since q = Inr r \<longrightarrow>
      1 \<le> lim \<and> lim \<le> 100 \<and> 0 \<le> off \<and> resp_limit r = lim \<and> resp_offset r = off)"
  by (auto simp: get_messages_def Let_def split: if_splits)

theorem get_messages_limit_offset_witness:
  "(\<exists>names. get_messages demo_store (Some 101) (Some 0) None None None =
      Inl (RequestValidationError names)) \<and>
   (\<exists>names. get_messages demo_store (Some 0) (Some 0) None None None =
      Inl (RequestValidationError names)) \<and>
   (\<exists>names. get_messages demo_store (Some 50) (Some (- 1)) None None None =
      Inl (RequestValidationError names)) \<and>
   get_messages demo_store (Some 100) (Some 1) None None None =
     Inr \<lparr>resp_data = [demo_message\<lparr>m_message_id := ustr ''m2'',
              m_from := ustr ''+15550000000'', m_ts := ustr ''2024-01-02T00:00:00Z'',
              m_text := None\<rparr>],
          resp_total = 2, resp_limit = 100, resp_offset = 1\<rparr>"
proof -
  have run: "get_messages demo_store (Some 100) (Some 1) None None None =
     Inr \<lparr>resp_data = [demo_message\<lparr>m_message_id := ustr ''m2'',
              m_from := ustr ''+15550000000'', m_ts := ustr ''2024-01-02T00:00:00Z'',
              m_text := None\<rparr>],
          resp_total = 2, resp_limit = 100, resp_offset = 1\<rparr>"
    by (simp add: get_messages_def where_clause_def conditions_def condition_def truthy_def
        demo_store_def demo_row_def demo_message_def order_by_ts_message_id_def select_columns_def)
  show ?thesis
    using get_messages_limit_offset [of 101 0 demo_store None None None]
      get_messages_limit_offset [of 0 0 demo_store None None None]
      get_messages_limit_offset [of 50 "- 1" demo_store None None None]
      get_messages_limit_offset [of 100 1 demo_store None None None] run
    by simp
qed

text \<open>
  Claim C10. A filter given as the empty string is treated as an absent one: the
  response is the response without that filter. So \<^verbatim>\<open>from=\<close> alone counts every
  stored message.
\<close>

theorem get_messages_empty_filter:
  "get_messages db limit_arg offset_arg (Some []) since q =
     get_messages db limit_arg offset_arg None since q \<and>
   get_messages db limit_arg offset_arg from_arg (Some []) q =
     get_messages db limit_arg offset_arg from_arg None q \<and>
   get_messages db limit_arg offset_arg from_arg since (Some []) =
     get_messages db limit_arg offset_arg from_arg since None \<and>
   (get_messages db limit_arg offset_arg (Some []) None None = Inr r \<longrightarrow>
      resp_total r = length db)"
proof -
  have c: "conditions (Some []) since q = conditions None since q"
    "conditions from_arg (Some []) q = conditions from_arg None q"
    "conditions from_arg since (Some []) = conditions from_arg since None"
    by (simp_all add: conditions_def condition_def truthy_def)
  have all: "filter (where_clause (conditions (Some []) None None)) db = db"
    by (simp add: conditions_def condition_def truthy_def where_clause_def)
  have "resp_total r = length db"
    if "get_messages db limit_arg offset_arg (Some []) None None = Inr r"
    using get_messages_Inr [OF that] all by simp
  moreover have "get_messages db limit_arg offset_arg (Some []) since q =
      get_messages db limit_arg offset_arg None since q"
    by (simp only: get_messages_def c)
  moreover have "get_messages db limit_arg offset_arg from_arg (Some []) q =
      get_messages db limit_arg offset_arg from_arg None q"
    by (simp only: get_messages_def c)
  moreover have "get_messages db limit_arg offset_arg from_arg since (Some []) =
      get_messages db limit_arg offset_arg from_arg since None"
    by (simp only: get_messages_def c)
  ultimately show ?thesis
    by blast
qed

theorem get_messages_empty_filter_witness:
  "get_messages
      [demo_row (ustr ''m1'') (ustr ''+15551230000'') (ustr ''2024-01-01T00:00:00Z'') (Some (ustr ''hi''))]
      None None (Some []) None None =
     Inr \<lparr>resp_data = [demo_message], resp_total = 1, resp_limit = 50, resp_offset = 0\<rparr> \<and>
   resp_total \<lparr>resp_data = [demo_message], resp_total = 1, resp_limit = 50, resp_offset = 0\<rparr> =
     length
      [demo_row (ustr ''m1'') (ustr ''+15551230000'') (ustr ''2024-01-01T00:00:00Z'') (Some (ustr ''hi''))]"
proof -
  have run: "get_messages
      [demo_row (ustr ''m1'') (ustr ''+15551230000'') (ustr ''2024-01-01T00:00:00Z'') (Some (ustr ''hi''))]
      None None (Some []) None None =
     Inr \<lparr>resp_data = [demo_message], resp_total = 1, resp_limit = 50, resp_offset = 0\<rparr>"
    by (simp add: get_messages_def where_clause_def conditions_def condition_def truthy_def
        demo_row_def demo_message_def order_by_ts_message_id_def select_columns_def)
  show ?thesis
    using get_messages_empty_filter [of _ None None None None None
        "\<lparr>resp_data = [demo_message], resp_total = 1, resp_limit = 50, resp_offset = 0\<rparr>"] run
    by blast
qed

subsection \<open>GET /stats\<close>



lemma order_by_count_desc_exists:
  "order_by_count_desc groups (rev (sort_key snd groups))"
proof -
  have "sorted_wrt (\<lambda>a b. snd a \<le> snd b) (sort_key snd groups)"
    using sorted_sort_key [of snd groups] by (simp add: sorted_map)
  then show ?thesis
    by (simp add: order_by_count_desc_def sorted_wrt_rev)
qed

text \<open>On every store the five queries have a result.\<close>

lemma stats_exists: "\<exists>resp. stats db resp"
proof -
  let ?resp = "\<lparr>total_messages = length db,
      senders_count = length (remdups (map from_msisdn db)),
      messages_per_sender = take 10 (rev (sort_key snd (group_by_sender db))),
      first_message_ts = fetchone (take 1 (sort (map ts db))),
      last_message_ts = fetchone (take 1 (rev (sort (map ts db))))\<rparr>"
  have "stats db ?resp"
    using order_by_count_desc_exists [of "group_by_sender db"]
    by (auto simp: stats_def)
  then show ?thesis ..
qed



lemma demo_store_groups:
  "group_by_sender demo_store = [(ustr ''+15550000000'', 1), (ustr ''+15551230000'', 1)]"
  by (simp add: group_by_sender_def demo_store_def demo_row_def)

lemma demo_store_ts:
  "map ts demo_store = [ustr ''2024-01-02T00:00:00Z'', ustr ''2024-01-01T00:00:00Z'']"
  by (simp add: demo_store_def demo_row_def)

lemma demo_store_sorted_ts:
  "sort (map ts demo_store) = [ustr ''2024-01-01T00:00:00Z'', ustr ''2024-01-02T00:00:00Z'']"
  by (simp add: demo_store_ts)

lemma demo_store_stats:
  assumes "xs = [(ustr ''+15550000000'', 1), (ustr ''+15551230000'', 1)] \<or>
           xs = [(ustr ''+15551230000'', 1), (ustr ''+15550000000'', 1)]"
  shows "stats demo_store
     \<lparr>total_messages = 2, senders_count = 2, messages_per_sender = xs,
      first_message_ts = Some (ustr ''2024-01-01T00:00:00Z''),
      last_message_ts = Some (ustr ''2024-01-02T00:00:00Z'')\<rparr>"
proof -
  have "order_by_count_desc (group_by_sender demo_store) xs"
    using assms by (auto simp: demo_store_groups order_by_count_desc_def)
  moreover have "xs = take 10 xs"
    using assms by auto
  ultimately have "\<exists>ys. order_by_count_desc (group_by_sender demo_store) ys \<and> xs = take 10 ys"
    by blast
  moreover have "length demo_store = 2" "length (remdups (map from_msisdn demo_store)) = 2"
    by (simp_all add: demo_store_def demo_row_def)
  ultimately show ?thesis
    by (simp add: stats_def demo_store_sorted_ts fetchone_def)
qed



lemma fetchone_first:
  "fetchone (take 1 (sort xs)) = (if xs = [] then None else Some (Min (set xs)))"
proof (cases "sort xs")
  case Nil
  then have "xs = []"
    by (metis length_sort length_0_conv)
  with Nil show ?thesis
    by (simp add: fetchone_def)
next
  case (Cons y ys)
  have "sorted (y # ys)"
    using sorted_sort [of xs] Cons by simp
  then have le: "\<forall>z \<in> set (y # ys). y \<le> z"
    by auto
  have set: "set xs = set (y # ys)"
    using set_sort [of "\<lambda>x. x" xs] Cons by simp
  then have ne: "xs \<noteq> []"
    by auto
  have "Min (set xs) = y"
    using le set by (intro Min_eqI) auto
  with Cons ne show ?thesis
    by (simp add: fetchone_def)
qed

lemma fetchone_last:
  "fetchone (take 1 (rev (sort xs))) = (if xs = [] then None else Some (Max (set xs)))"
proof (cases "rev (sort xs)")
  case Nil
  then have "xs = []"
    by (metis length_sort length_0_conv rev_is_Nil_conv)
  with Nil show ?thesis
    by (simp add: fetchone_def)
next
  case (Cons y ys)
  then have eq: "sort xs = rev ys @ [y]"
    by (metis rev_rev_ident rev.simps(2))
  have "sorted (rev ys @ [y])"
    using sorted_sort [of xs] eq by simp
  then have le: "\<forall>z \<in> set (y # ys). z \<le> y"
    by (auto simp: sorted_append)
  have set: "set xs = set (y # ys)"
    using set_sort [of "\<lambda>x. x" xs] eq by auto
  then have ne: "xs \<noteq> []"
    by auto
  have "Max (set xs) = y"
    using le set by (intro Max_eqI) auto
  with Cons ne show ?thesis
    by (simp add: fetchone_def)
qed

text \<open>
  Claim C7. In every store \<^verbatim>\<open>GET /stats\<close> has a response. On the empty store
  \<^verbatim>\<open>first_message_ts\<close> and \<^verbatim>\<open>last_message_ts\<close> are both null; on any other store
  they are the least and the greatest stored \<^verbatim>\<open>ts\<close>, so the first is at most the last.
\<close>

theorem stats_first_last:
  "(\<exists>resp. stats db resp) \<and>
   (\<forall>resp. stats db resp \<longrightarrow>
      (if db = [] then first_message_ts resp = None \<and> last_message_ts resp = None
       else first_message_ts resp = Some (Min (set (map ts db))) \<and>
            last_message_ts resp = Some (Max (set (map ts db))) \<and>
            Min (set (map ts db)) \<le> Max (set (map ts db))))"
proof (intro conjI allI impI)
  show "\<exists>resp. stats db resp"
    by (rule stats_exists)
next
  fix resp
  assume "stats db resp"
  then have f: "first_message_ts resp = fetchone (take 1 (sort (map ts db)))"
    and l: "last_message_ts resp = fetchone (take 1 (rev (sort (map ts db))))"
    by (simp_all add: stats_def)
  show "if db = [] then first_message_ts resp = None \<and> last_message_ts resp = None
       else first_message_ts resp = Some (Min (set (map ts db))) \<and>
            last_message_ts resp = Some (Max (set (map ts db))) \<and>
            Min (set (map ts db)) \<le> Max (set (map ts db))"
  proof (cases "db = []")
    case True
    with f l show ?thesis
      by (simp add: fetchone_def)
  next
    case False
    then obtain r where "r \<in> set db"
      by (cases db) auto
    then have "ts r \<in> set (map ts db)"
      by simp
    then have "Min (set (map ts db)) \<le> ts r" and "ts r \<le> Max (set (map ts db))"
      by (simp_all del: set_map)
    then have "Min (set (map ts db)) \<le> Max (set (map ts db))"
      by (rule order_trans)
    moreover have "fetchone (take 1 (sort (map ts db))) = Some (Min (set (map ts db)))"
      using False by (subst fetchone_first) simp
    moreover have "fetchone (take 1 (rev (sort (map ts db)))) = Some (Max (set (map ts db)))"
      using False by (subst fetchone_last) simp
    ultimately show ?thesis
      using False f l by simp
  qed
qed

theorem stats_first_last_witness:
  "stats demo_store
     \<lparr>total_messages = 2, senders_count = 2,
      messages_per_sender = [(ustr ''+15551230000'', 1), (ustr ''+15550000000'', 1)],
      first_message_ts = Some (ustr ''2024-01-01T00:00:00Z''),
      last_message_ts = Some (ustr ''2024-01-02T00:00:00Z'')\<rparr> \<and>
   Some (ustr ''2024-01-01T00:00:00Z'') = Some (Min (set (map ts demo_store))) \<and>
   Some (ustr ''2024-01-02T00:00:00Z'') = Some (Max (set (map ts demo_store))) \<and>
   stats []
     \<lparr>total_messages = 0, senders_count = 0, messages_per_sender = [],
      first_message_ts = None, last_message_ts = None\<rparr>"
proof -
  have run: "stats demo_store
     \<lparr>total_messages = 2, senders_count = 2,
      messages_per_sender = [(ustr ''+15551230000'', 1), (ustr ''+15550000000'', 1)],
      first_message_ts = Some (ustr ''2024-01-01T00:00:00Z''),
      last_message_ts = Some (ustr ''2024-01-02T00:00:00Z'')\<rparr>"
    by (rule demo_store_stats) simp
  have ne: "demo_store \<noteq> []"
    by (simp add: demo_store_def)
  have empty: "stats []
     \<lparr>total_messages = 0, senders_count = 0, messages_per_sender = [],
      first_message_ts = None, last_message_ts = None\<rparr>"
    by (simp add: stats_def group_by_sender_def order_by_count_desc_def fetchone_def)
  show ?thesis
    using stats_first_last [of demo_store] run ne empty by auto
qed

end
